theory Spec2Isabelle
  imports Complex_Main
begin

section \<open>Text\<close>

text \<open>
  A Python \<open>str\<close> is a sequence of Unicode code points; it is modelled as the list of
  the code points' numbers.  The character classes below are Python's on the code points
  \<open>0..255\<close> (the Latin-1 block).  Above \<open>255\<close> a code point is treated as an uncased
  symbol that is neither white space nor a word character nor a digit; this is what
  Python says of \<open>U+20AC\<close> and \<open>U+2122\<close>, the only code points above \<open>255\<close> in the
  trigger patterns of the program.  \<open>in_model\<close> names the code points for which the
  classes are Python's; a statement that speaks of the words, the digits or the characters
  of an arbitrary text is made for a text of such code points (\<open>text_in_model\<close>).
\<close>

type_synonym pystr = "nat list"

definition str :: "string \<Rightarrow> pystr" where
  "str s = map of_char s"



definition py_isspace :: "nat \<Rightarrow> bool" where
  \<comment> \<open>\<open>str.isspace\<close>, and \<open>\s\<close> of \<open>re\<close> on \<open>str\<close> patterns\<close>
  "py_isspace c = ((9 \<le> c \<and> c \<le> 13) \<or> (28 \<le> c \<and> c \<le> 32) \<or> c = 133 \<or> c = 160)"

definition lower_char :: "nat \<Rightarrow> nat" where
  "lower_char c =
     (if (65 \<le> c \<and> c \<le> 90) \<or> (192 \<le> c \<and> c \<le> 222 \<and> c \<noteq> 215) then c + 32 else c)"

definition lower :: "pystr \<Rightarrow> pystr" where
  \<comment> \<open>\<open>str.lower\<close>\<close>
  "lower s = map lower_char s"

definition strip :: "pystr \<Rightarrow> pystr" where
  \<comment> \<open>\<open>str.strip()\<close>: white space removed at both ends\<close>
  "strip s = rev (dropWhile py_isspace (rev (dropWhile py_isspace s)))"


definition py_isalnum :: "nat \<Rightarrow> bool" where
  \<comment> \<open>\<open>str.isalnum\<close> of a single character\<close>
  "py_isalnum c =
     ((48 \<le> c \<and> c \<le> 57) \<or> (65 \<le> c \<and> c \<le> 90) \<or> (97 \<le> c \<and> c \<le> 122)
      \<or> c = 170 \<or> c = 178 \<or> c = 179 \<or> c = 181 \<or> c = 185 \<or> c = 186
      \<or> (188 \<le> c \<and> c \<le> 190) \<or> (192 \<le> c \<and> c \<le> 214) \<or> (216 \<le> c \<and> c \<le> 246)
      \<or> (248 \<le> c \<and> c \<le> 255))"

definition is_word :: "nat \<Rightarrow> bool" where
  \<comment> \<open>\<open>\w\<close> of \<open>re\<close> on \<open>str\<close> patterns: alphanumeric or the underscore\<close>
  "is_word c = (py_isalnum c \<or> c = 95)"

definition is_digit :: "nat \<Rightarrow> bool" where
  \<comment> \<open>\<open>\d\<close>: a decimal digit\<close>
  "is_digit c = (48 \<le> c \<and> c \<le> 57)"

fun split_ws :: "pystr \<Rightarrow> pystr \<Rightarrow> pystr list" where
  \<comment> \<open>\<open>str.split()\<close>: the maximal runs of characters that are not white space;
      the first argument is the run being read\<close>
  "split_ws cur [] = (if cur = [] then [] else [cur])"
| "split_ws cur (c # cs) =
     (if py_isspace c then (if cur = [] then split_ws [] cs else cur # split_ws [] cs)
      else split_ws (cur @ [c]) cs)"

definition split :: "pystr \<Rightarrow> pystr list" where
  "split s = split_ws [] s"







section \<open>Regular expressions\<close>

text \<open>
  The part of Python's \<open>re\<close> that the program uses, as a backtracking matcher.  A
  pattern is a list of atoms: a character class once (\<open>One\<close>), optionally (\<open>c?\<close>),
  greedily repeated (\<open>c*\<close>, \<open>c+\<close>), the anchors \<open>^\<close>, \<open>$\<close> (without
  \<open>MULTILINE\<close>: at the end, or before a line feed that ends the text), the end of the
  text, the word boundary \<open>\b\<close>, and the parentheses of group 1.  The flag
  \<open>IGNORECASE\<close> is the first argument of the matcher; the program uses it with
  literal characters and the dot only, and it acts on literals.
  The matcher reads the text as the characters before the position, nearest first, and
  the characters from the position on.
\<close>

datatype item = Lit nat | Rng nat nat | Space | Digit | Dot

datatype cls = Is item | OneOf "item list" | NoneOf "item list"

datatype atom = One cls | Opt cls | Star cls | Plus cls | Bol | Eol | Eos | Wordb | GOpen | GClose

fun item_ok :: "bool \<Rightarrow> item \<Rightarrow> nat \<Rightarrow> bool" where
  "item_ok ic (Lit c) x = (if ic then lower_char x = lower_char c else x = c)"
| "item_ok ic (Rng a b) x = (a \<le> x \<and> x \<le> b)"
| "item_ok ic Space x = py_isspace x"
| "item_ok ic Digit x = is_digit x"
| "item_ok ic Dot x = (x \<noteq> 10)"

fun cls_ok :: "bool \<Rightarrow> cls \<Rightarrow> nat \<Rightarrow> bool" where
  "cls_ok ic (Is a) x = item_ok ic a x"
| "cls_ok ic (OneOf as) x = list_ex (\<lambda>a. item_ok ic a x) as"
| "cls_ok ic (NoneOf as) x = (\<not> list_ex (\<lambda>a. item_ok ic a x) as)"

fun first_down :: "(nat \<Rightarrow> 'a option) \<Rightarrow> nat \<Rightarrow> nat \<Rightarrow> 'a option" where
  \<comment> \<open>greedy choice: the first of \<open>f k, f (k - 1), \<dots>, f lo\<close> that succeeds\<close>
  "first_down f lo 0 = (if lo = 0 then f 0 else None)"
| "first_down f lo (Suc k) =
     (if Suc k < lo then None
      else case f (Suc k) of Some r \<Rightarrow> Some r | None \<Rightarrow> first_down f lo k)"

definition at_boundary :: "pystr \<Rightarrow> pystr \<Rightarrow> bool" where
  \<comment> \<open>\<open>\b\<close>: exactly one of the characters before and after is a word character\<close>
  "at_boundary bef rest =
     ((case bef of [] \<Rightarrow> False | b # _ \<Rightarrow> is_word b)
        \<noteq> (case rest of [] \<Rightarrow> False | x # _ \<Rightarrow> is_word x))"

text \<open>
  A match is the text before its end (nearest first), the text after its end, and the
  text of group 1 if the group took part.
\<close>

type_synonym rmatch = "pystr \<times> pystr \<times> pystr option"

fun rx_match ::
  "bool \<Rightarrow> atom list \<Rightarrow> pystr \<Rightarrow> pystr \<Rightarrow> nat option \<Rightarrow> pystr option \<Rightarrow> rmatch option" where
  "rx_match ic [] bef rest go g = Some (bef, rest, g)"
| "rx_match ic (One c # r) bef rest go g =
     (case rest of
        [] \<Rightarrow> None
      | x # xs \<Rightarrow> if cls_ok ic c x then rx_match ic r (x # bef) xs go g else None)"
| "rx_match ic (Opt c # r) bef rest go g =
     first_down (\<lambda>k. rx_match ic r (rev (take k rest) @ bef) (drop k rest) go g) 0
       (min 1 (length (takeWhile (cls_ok ic c) rest)))"
| "rx_match ic (Star c # r) bef rest go g =
     first_down (\<lambda>k. rx_match ic r (rev (take k rest) @ bef) (drop k rest) go g) 0
       (length (takeWhile (cls_ok ic c) rest))"
| "rx_match ic (Plus c # r) bef rest go g =
     first_down (\<lambda>k. rx_match ic r (rev (take k rest) @ bef) (drop k rest) go g) 1
       (length (takeWhile (cls_ok ic c) rest))"
| "rx_match ic (Bol # r) bef rest go g =
     (if bef = [] then rx_match ic r bef rest go g else None)"
| "rx_match ic (Eol # r) bef rest go g =
     (if rest = [] \<or> rest = [10] then rx_match ic r bef rest go g else None)"
| "rx_match ic (Eos # r) bef rest go g =
     (if rest = [] then rx_match ic r bef rest go g else None)"
| "rx_match ic (Wordb # r) bef rest go g =
     (if at_boundary bef rest then rx_match ic r bef rest go g else None)"
| "rx_match ic (GOpen # r) bef rest go g = rx_match ic r bef rest (Some (length bef)) g"
| "rx_match ic (GClose # r) bef rest go g =
     rx_match ic r bef rest go
       (case go of None \<Rightarrow> g | Some n \<Rightarrow> Some (rev (take (length bef - n) bef)))"




definition re_fullmatch :: "bool \<Rightarrow> atom list \<Rightarrow> pystr \<Rightarrow> rmatch option" where
  "re_fullmatch ic rx s = rx_match ic (rx @ [Eos]) [] s None None"



definition lit :: "pystr \<Rightarrow> atom list" where
  \<comment> \<open>a text taken literally, as \<open>re.escape\<close> makes it\<close>
  "lit s = map (\<lambda>c. One (Is (Lit c))) s"


section \<open>The task store (\<open>features/todo.py\<close>)\<close>

text \<open>
  A task is the dictionary \<open>{"id", "title", "status", "created_at"}\<close>.  The module keeps
  the list \<open>tasks\<close> and rewrites the file \<open>tasks.json\<close> after every change; the state
  of the store is the pair of the two.  The time stamp of \<open>datetime.now().isoformat()\<close>
  is an argument.
\<close>

record task =
  id_task :: int
  title :: pystr
  status :: pystr
  created_at :: pystr

record store =
  tasks :: "task list"
  todo_file :: "task list option"

text \<open>The argument of \<open>remove_task\<close> and \<open>mark_done\<close>: the caller passes an \<open>int\<close>, a \<open>str\<close> or \<open>None\<close>.\<close>

datatype pyarg = ANone | AInt int | AStr pystr

definition load_store :: "task list option \<Rightarrow> store" where
  \<comment> \<open>module start: the file's list if the file exists, else the empty list\<close>
  "load_store f = \<lparr>tasks = (case f of Some ts \<Rightarrow> ts | None \<Rightarrow> []), todo_file = f\<rparr>"

definition save_tasks :: "store \<Rightarrow> store" where
  "save_tasks s = s\<lparr>todo_file := Some (tasks s)\<rparr>"

definition add_task :: "pystr \<Rightarrow> pystr \<Rightarrow> store \<Rightarrow> pystr \<times> store" where
  "add_task now title0 s =
     (let ttl = strip title0 in
      if ttl = [] then (str ''Task cannot be empty'', s)
      else if list_ex (\<lambda>t. lower (title t) = lower ttl) (tasks s)
        then (str ''Task already exists'', s)
      else
        let t = \<lparr>id_task = int (length (tasks s)) + 1, title = ttl,
                 status = str ''pending'', created_at = now\<rparr>
        in (str ''Task added: '' @ ttl, save_tasks (s\<lparr>tasks := tasks s @ [t]\<rparr>)))"

definition get_tasks :: "pystr option \<Rightarrow> store \<Rightarrow> task list" where
  "get_tasks st s =
     (case st of
        None \<Rightarrow> tasks s
      | Some v \<Rightarrow>
          if v \<noteq> str ''pending'' \<and> v \<noteq> str ''done'' then []
          else filter (\<lambda>t. status t = v) (tasks s))"

definition id_matches :: "pyarg \<Rightarrow> task \<Rightarrow> bool" where
  \<comment> \<open>\<open>t["id"] == task_id\<close>: an \<open>int\<close> equals neither a \<open>str\<close> nor \<open>None\<close>\<close>
  "id_matches a t = (case a of AInt i \<Rightarrow> id_task t = i | _ \<Rightarrow> False)"

definition remove_task :: "pyarg \<Rightarrow> store \<Rightarrow> pystr \<times> store" where
  "remove_task a s =
     (case find (id_matches a) (tasks s) of
        Some t \<Rightarrow> (str ''Removed task: '' @ title t,
                   save_tasks (s\<lparr>tasks := remove1 t (tasks s)\<rparr>))
      | None \<Rightarrow> (str ''Task not found'', s))"

fun set_first_done :: "pyarg \<Rightarrow> task list \<Rightarrow> task list" where
  "set_first_done a [] = []"
| "set_first_done a (t # ts) =
     (if id_matches a t then t\<lparr>status := str ''done''\<rparr> # ts else t # set_first_done a ts)"

definition mark_done :: "pyarg \<Rightarrow> store \<Rightarrow> pystr \<times> store" where
  "mark_done a s =
     (case find (id_matches a) (tasks s) of
        Some t \<Rightarrow> (str ''Marked done: '' @ title t,
                   save_tasks (s\<lparr>tasks := set_first_done a (tasks s)\<rparr>))
      | None \<Rightarrow> (str ''Task not found'', s))"

definition empty_store :: store where
  "empty_store = load_store None"

section \<open>Python values and the world outside the program\<close>

text \<open>
  A finite \<open>float\<close> is modelled by the rational number it stands for.
\<close>

datatype pyfloat = Finite rat | Infinity bool | NaN

datatype pyval =
    VNone
  | VBool bool
  | VInt int
  | VFloat pyfloat
  | VComplex pyfloat pyfloat
  | VStr pystr
  | VList "pyval list"
  | VTuple "pyval list"
  | VDict "(pystr \<times> pyval) list"
  | VEllipsis

datatype pyexn = ZeroDivisionError | KeyError | IndexError | TypeError | OtherException


text \<open>
  What the program reads from outside itself is a parameter of the model:
  \<^item> \<open>http_json url\<close>: the result of \<open>requests.get(url, timeout=5).json()\<close>, the parsed
    JSON document, or \<open>None\<close> when the call raises (no network, a time-out, a body that
    is not JSON);
  \<^item> \<open>py_eval e\<close>: the result of the built-in \<open>eval(e, {"__builtins__": None}, {})\<close>, a
    value or the exception it raises;
  \<^item> \<open>close_matches w ps c\<close>: \<open>difflib.get_close_matches(w, ps, n=1, cutoff=c)\<close>;
  \<^item> \<open>rand\<close>: the number that \<open>random.choice\<close> draws (reduced modulo the length of the
    list);
  \<^item> \<open>now_iso\<close>: \<open>datetime.now().isoformat()\<close>;
  \<^item> \<open>repr_other v\<close>: the text \<open>str(v)\<close> of a value that is neither a string nor an
    integer nor one of the constants.
\<close>

record env =
  http_json :: "pystr \<Rightarrow> pyval option"
  py_eval :: "pystr \<Rightarrow> pyexn + pyval"
  close_matches :: "pystr \<Rightarrow> pystr list \<Rightarrow> rat \<Rightarrow> pystr list"
  rand :: nat
  now_iso :: pystr
  repr_other :: "pyval \<Rightarrow> pystr"



section \<open>The calculator (\<open>features/calculator.py\<close>)\<close>

definition calc_chars :: cls where
  \<comment> \<open>\<open>[0-9+\-*/%.()]\<close>\<close>
  "calc_chars = OneOf [Rng 48 57, Lit 43, Lit 45, Lit 42, Lit 47, Lit 37, Lit 46, Lit 40, Lit 41]"

definition float_is_integer :: "pyfloat \<Rightarrow> bool" where
  \<comment> \<open>\<open>float.is_integer\<close>: finite, with no fractional part\<close>
  "float_is_integer f = (case f of Finite q \<Rightarrow> of_int \<lfloor>q\<rfloor> = q | _ \<Rightarrow> False)"

definition int_of_float :: "pyfloat \<Rightarrow> int" where
  \<comment> \<open>\<open>int(f)\<close> of a finite float: truncation towards zero\<close>
  "int_of_float f = (case f of Finite q \<Rightarrow> (if q < 0 then - \<lfloor>- q\<rfloor> else \<lfloor>q\<rfloor>) | _ \<Rightarrow> 0)"

definition evaluate :: "env \<Rightarrow> pystr \<Rightarrow> pyval" where
  "evaluate E expr0 =
     (let expr = filter (\<lambda>c. c \<noteq> 32) expr0 in
      if re_fullmatch False [Plus calc_chars] expr = None
        then VStr (str ''Invalid characters in expression'')
      else
        case py_eval E expr of
          Inl ZeroDivisionError \<Rightarrow> VStr (str ''Division by zero is not allowed'')
        | Inl _ \<Rightarrow> VStr (str ''Invalid expression'')
        | Inr result \<Rightarrow>
            (case result of
               VFloat f \<Rightarrow> if float_is_integer f then VInt (int_of_float f) else result
             | _ \<Rightarrow> result))"

section \<open>The dictionary (\<open>features/dictionary.py\<close>)\<close>





section \<open>The chatbot (\<open>chatbot.py\<close>)\<close>

subsection \<open>The intents\<close>







subsection \<open>Normalisation and the detectors\<close>








definition phrasal :: "atom list list" where
  "phrasal =
     [[Bol, Star (Is Space)] @ lit (str ''what'') @ [Plus (Is Space)] @ lit (str ''is'')
        @ [Plus (Is Space), GOpen, Plus (Is Dot), GClose, Eol],
      [Bol, Star (Is Space)] @ lit (str ''calculate'')
        @ [Plus (Is Space), GOpen, Plus (Is Dot), GClose, Eol],
      [Bol, Star (Is Space)] @ lit (str ''solve'')
        @ [Plus (Is Space), GOpen, Plus (Is Dot), GClose, Eol]]"




subsection \<open>The dispatcher\<close>












section \<open>Notions used in the statements\<close>








text \<open>
  A world in which the dictionary service cannot be reached, \<open>eval\<close> raises, no word is
  close to another, and \<open>random.choice\<close> draws \<open>r\<close>.
\<close>

definition quiet_env :: "nat \<Rightarrow> env" where
  "quiet_env r =
     \<lparr>http_json = (\<lambda>url. None), py_eval = (\<lambda>e. Inl OtherException),
      close_matches = (\<lambda>w ps c. []), rand = r, now_iso = [], repr_other = (\<lambda>v. [])\<rparr>"




text \<open>
  What Python's \<open>eval\<close> gives on four expressions: \<open>2+2\<close> is the \<open>int\<close> 4, \<open>8/2\<close> is
  the \<open>float\<close> 4.0, \<open>10/0\<close> raises \<open>ZeroDivisionError\<close>, and \<open>()*2\<close> is the empty
  tuple.
\<close>

definition sample_eval :: "pystr \<Rightarrow> pyexn + pyval" where
  "sample_eval e =
     (if e = str ''2+2'' then Inr (VInt 4)
      else if e = str ''8/2'' then Inr (VFloat (Finite 4))
      else if e = str ''10/0'' then Inl ZeroDivisionError
      else if e = str ''()*2'' then Inr (VTuple [])
      else Inl OtherException)"

definition calc_ok :: "pystr \<Rightarrow> bool" where
  \<comment> \<open>an expression that passes the check of \<open>evaluate\<close>: after the spaces are taken out,
      it is not empty and all its characters are digits, operators, dots or parentheses\<close>
  "calc_ok e =
     (filter (\<lambda>c. c \<noteq> 32) e \<noteq> [] \<and> list_all (cls_ok False calc_chars) (filter (\<lambda>c. c \<noteq> 32) e))"

definition is_number :: "pyval \<Rightarrow> bool" where
  "is_number v = (case v of VInt i \<Rightarrow> True | VFloat f \<Rightarrow> True | VComplex a b \<Rightarrow> True | _ \<Rightarrow> False)"

definition is_text :: "pyval \<Rightarrow> bool" where
  "is_text v = (case v of VStr s \<Rightarrow> True | _ \<Rightarrow> False)"





section \<open>Properties of the task store\<close>

lemmas store_defs =
  add_task_def get_tasks_def remove_task_def mark_done_def save_tasks_def
  load_store_def empty_store_def id_matches_def strip_def lower_def lower_char_def
  py_isspace_def str_def

text \<open>
  C3.  From the empty store, adding "Buy milk" succeeds and the list then holds exactly
  one task, titled "Buy milk" and pending, with id 1; marking task 1 done sets its status
  to "done"; removing task 1 empties the list; removing task 1 once more answers
  "Task not found".
\<close>

theorem todo_round_trip:
  "(let r1 = add_task now (str ''Buy milk'') empty_store;
        r2 = mark_done (AInt 1) (snd r1);
        r3 = remove_task (AInt 1) (snd r2);
        r4 = remove_task (AInt 1) (snd r3)
    in fst r1 = str ''Task added: Buy milk''
     \<and> get_tasks None (snd r1) =
           [\<lparr>id_task = 1, title = str ''Buy milk'', status = str ''pending'',
             created_at = now\<rparr>]
     \<and> get_tasks None (snd r2) =
           [\<lparr>id_task = 1, title = str ''Buy milk'', status = str ''done'',
             created_at = now\<rparr>]
     \<and> get_tasks None (snd r3) = []
     \<and> fst r4 = str ''Task not found'')"
  by (simp add: store_defs Let_def)

lemma find_first_match:
  "list_all (\<lambda>u. \<not> P u) pre \<Longrightarrow> P t \<Longrightarrow> find P (pre @ t # post) = Some t"
  by (induction pre) auto

lemma remove1_first_match:
  "list_all (\<lambda>u. \<not> id_matches a u) pre \<Longrightarrow> id_matches a t \<Longrightarrow>
   remove1 t (pre @ t # post) = pre @ post"
  by (induction pre) auto

lemma set_first_done_first_match:
  "list_all (\<lambda>u. \<not> id_matches a u) pre \<Longrightarrow> id_matches a t \<Longrightarrow>
   set_first_done a (pre @ t # post) = pre @ t\<lparr>status := str ''done''\<rparr> # post"
  by (induction pre) auto

text \<open>
  C10.  \<open>add_task\<close> gives a new task the id (number of stored tasks) + 1.  Ids are
  therefore not unique: after adding "a" and "b", removing task 1 and adding "c", the store
  holds the two tasks "b" and "c", both with id 2 (the largest id + 1 would be 3).
  \<open>remove_task\<close> and \<open>mark_done\<close> act on the earliest stored task with the given id
  only: on that store, removing id 2 leaves "c", and marking id 2 done marks "b" alone; in
  general, when no task before \<open>t\<close> has id \<open>i\<close> and \<open>t\<close> has, the tasks before and
  after \<open>t\<close> are left as they are.
\<close>

theorem task_ids_by_count:
  "(strip ttl \<noteq> [] \<and> \<not> list_ex (\<lambda>t. lower (title t) = lower (strip ttl)) (tasks s) \<longrightarrow>
      tasks (snd (add_task now ttl s)) =
        tasks s @ [\<lparr>id_task = int (length (tasks s)) + 1, title = strip ttl,
                    status = str ''pending'', created_at = now\<rparr>])
   \<and> (let s1 = snd (add_task n1 (str ''a'') empty_store);
           s2 = snd (add_task n2 (str ''b'') s1);
           s3 = snd (remove_task (AInt 1) s2);
           s4 = snd (add_task n3 (str ''c'') s3)
       in map id_task (tasks s4) = [2, 2]
        \<and> map title (tasks s4) = [str ''b'', str ''c'']
        \<and> map title (tasks (snd (remove_task (AInt 2) s4))) = [str ''c'']
        \<and> map status (tasks (snd (mark_done (AInt 2) s4))) = [str ''done'', str ''pending''])
   \<and> (list_all (\<lambda>u. id_task u \<noteq> i) pre \<and> id_task t = i \<longrightarrow>
        tasks (snd (remove_task (AInt i) (s\<lparr>tasks := pre @ t # post\<rparr>))) = pre @ post
      \<and> tasks (snd (mark_done (AInt i) (s\<lparr>tasks := pre @ t # post\<rparr>))) =
          pre @ t\<lparr>status := str ''done''\<rparr> # post)"
proof (intro conjI impI)
  show "tasks (snd (add_task now ttl s)) =
        tasks s @ [\<lparr>id_task = int (length (tasks s)) + 1, title = strip ttl,
                    status = str ''pending'', created_at = now\<rparr>]"
    if "strip ttl \<noteq> [] \<and> \<not> list_ex (\<lambda>t. lower (title t) = lower (strip ttl)) (tasks s)"
    using that by (simp add: add_task_def save_tasks_def Let_def)
next
  show "let s1 = snd (add_task n1 (str ''a'') empty_store);
           s2 = snd (add_task n2 (str ''b'') s1);
           s3 = snd (remove_task (AInt 1) s2);
           s4 = snd (add_task n3 (str ''c'') s3)
       in map id_task (tasks s4) = [2, 2]
        \<and> map title (tasks s4) = [str ''b'', str ''c'']
        \<and> map title (tasks (snd (remove_task (AInt 2) s4))) = [str ''c'']
        \<and> map status (tasks (snd (mark_done (AInt 2) s4))) = [str ''done'', str ''pending'']"
    by (simp add: store_defs Let_def)
next
  assume h: "list_all (\<lambda>u. id_task u \<noteq> i) pre \<and> id_task t = i"
  then have pre: "list_all (\<lambda>u. \<not> id_matches (AInt i) u) pre" and t: "id_matches (AInt i) t"
    by (simp_all add: id_matches_def)
  show "tasks (snd (remove_task (AInt i) (s\<lparr>tasks := pre @ t # post\<rparr>))) = pre @ post"
    using find_first_match [OF pre t] remove1_first_match [OF pre t]
    by (simp add: remove_task_def save_tasks_def)
  show "tasks (snd (mark_done (AInt i) (s\<lparr>tasks := pre @ t # post\<rparr>))) =
          pre @ t\<lparr>status := str ''done''\<rparr> # post"
    using find_first_match [OF pre t] set_first_done_first_match [OF pre t]
    by (simp add: mark_done_def save_tasks_def)
qed

theorem task_ids_by_count_witness:
  "tasks (snd (add_task [] (str '' x '') empty_store)) =
     [\<lparr>id_task = 1, title = str ''x'', status = str ''pending'', created_at = []\<rparr>]
   \<and> tasks (snd (remove_task (AInt 7) (empty_store\<lparr>tasks :=
        [\<lparr>id_task = 3, title = str ''p'', status = str ''pending'', created_at = []\<rparr>,
         \<lparr>id_task = 7, title = str ''q'', status = str ''pending'', created_at = []\<rparr>,
         \<lparr>id_task = 7, title = str ''r'', status = str ''pending'', created_at = []\<rparr>]\<rparr>))) =
      [\<lparr>id_task = 3, title = str ''p'', status = str ''pending'', created_at = []\<rparr>,
       \<lparr>id_task = 7, title = str ''r'', status = str ''pending'', created_at = []\<rparr>]
   \<and> tasks (snd (mark_done (AInt 7) (empty_store\<lparr>tasks :=
        [\<lparr>id_task = 3, title = str ''p'', status = str ''pending'', created_at = []\<rparr>,
         \<lparr>id_task = 7, title = str ''q'', status = str ''pending'', created_at = []\<rparr>,
         \<lparr>id_task = 7, title = str ''r'', status = str ''pending'', created_at = []\<rparr>]\<rparr>))) =
      [\<lparr>id_task = 3, title = str ''p'', status = str ''pending'', created_at = []\<rparr>,
       \<lparr>id_task = 7, title = str ''q'', status = str ''done'', created_at = []\<rparr>,
       \<lparr>id_task = 7, title = str ''r'', status = str ''pending'', created_at = []\<rparr>]"
  using task_ids_by_count [of "str '' x ''" empty_store "[]" "[]" "[]" "[]" 7
      "[\<lparr>id_task = 3, title = str ''p'', status = str ''pending'', created_at = []\<rparr>]"
      "\<lparr>id_task = 7, title = str ''q'', status = str ''pending'', created_at = []\<rparr>"
      "[\<lparr>id_task = 7, title = str ''r'', status = str ''pending'', created_at = []\<rparr>]"]
  by (simp add: strip_def py_isspace_def str_def empty_store_def load_store_def)
section \<open>Facts about the matcher\<close>


lemma first_down_None_iff:
  "first_down f lo k = None \<longleftrightarrow> (\<forall>j. lo \<le> j \<and> j \<le> k \<longrightarrow> f j = None)"
proof (induction k)
  case 0
  then show ?case by auto
next
  case (Suc k)
  show ?case
  proof (cases "Suc k < lo")
    case True
    then show ?thesis by auto
  next
    case False
    show ?thesis
    proof (cases "f (Suc k)")
      case None
      have "(\<forall>j. lo \<le> j \<and> j \<le> Suc k \<longrightarrow> f j = None) \<longleftrightarrow> (\<forall>j. lo \<le> j \<and> j \<le> k \<longrightarrow> f j = None)"
        using None le_Suc_eq by auto
      with None False Suc show ?thesis by simp
    next
      case (Some a)
      have l: "first_down f lo (Suc k) = Some a"
        using Some False by simp
      have r: "\<not> (\<forall>j. lo \<le> j \<and> j \<le> Suc k \<longrightarrow> f j = None)"
      proof
        assume "\<forall>j. lo \<le> j \<and> j \<le> Suc k \<longrightarrow> f j = None"
        then have "f (Suc k) = None" using False by auto
        with Some show False by simp
      qed
      from l r show ?thesis by simp
    qed
  qed
qed


lemma rx_match_One:
  "rx_match ic [One c] bef rest go g =
     (case rest of [] \<Rightarrow> None | x # xs \<Rightarrow> if cls_ok ic c x then Some (x # bef, xs, g) else None)"
  by (simp split: list.splits)





lemma takeWhile_all_length:
  "length (takeWhile P s) = length s \<longleftrightarrow> list_all P s"
  by (induction s) auto

lemma re_fullmatch_Plus:
  "re_fullmatch ic [Plus c] s \<noteq> None \<longleftrightarrow> s \<noteq> [] \<and> list_all (cls_ok ic c) s"
proof -
  let ?n = "length (takeWhile (cls_ok ic c) s)"
  let ?f = "\<lambda>k. rx_match ic [Eos] (rev (take k s) @ []) (drop k s) None None"
  have f: "?f k \<noteq> None \<longleftrightarrow> length s \<le> k" for k by simp
  have "first_down ?f 1 ?n \<noteq> None \<longleftrightarrow> (\<exists>j. 1 \<le> j \<and> j \<le> ?n \<and> length s \<le> j)"
    unfolding first_down_None_iff using f by blast
  also have "\<dots> \<longleftrightarrow> s \<noteq> [] \<and> ?n = length s"
  proof (cases s)
    case Nil
    then show ?thesis by simp
  next
    case (Cons x xs)
    have "?n \<le> length s" by (rule length_takeWhile_le)
    then show ?thesis using Cons by auto
  qed
  finally show ?thesis by (simp add: re_fullmatch_def takeWhile_all_length)
qed












section \<open>Facts about the text functions\<close>











section \<open>Facts about the trigger patterns\<close>



















section \<open>Facts about the calculator detector\<close>








lemma case_option_same: "(case x of None \<Rightarrow> None | Some r \<Rightarrow> Some r) = x"
  by (cases x) auto








lemma phrasal_list: "phrasal = [phrasal ! 0, phrasal ! 1, phrasal ! 2]"
  by (simp add: phrasal_def)







section \<open>Facts about the dictionary and the calculator\<close>




lemma calc_ok_iff:
  "(re_fullmatch False [Plus calc_chars] (filter (\<lambda>c. c \<noteq> 32) e) = None) = (\<not> calc_ok e)"
  using re_fullmatch_Plus [of False calc_chars "filter (\<lambda>c. c \<noteq> 32) e"]
  unfolding calc_ok_def by blast

lemmas calc_eval_defs = calc_ok_def calc_chars_def sample_eval_def quiet_env_def str_def is_digit_def

section \<open>Normalisation\<close>


section \<open>The to-do command detector\<close>






section \<open>The pattern-matching step\<close>






section \<open>The dictionary step\<close>




section \<open>The calculator\<close>



text \<open>
  C5.  \<open>evaluate\<close> raises nothing: an expression with a character that is not allowed
  gives "Invalid characters in expression", a \<open>ZeroDivisionError\<close> of \<open>eval\<close> gives
  "Division by zero is not allowed", any other exception gives "Invalid expression".  A
  value of \<open>eval\<close> that is not a number is returned as it is: for "()*2" \<open>eval\<close> gives
  the empty tuple, and \<open>evaluate\<close> returns the empty tuple, which is neither a number
  nor a text.
\<close>

theorem evaluate_result_kinds:
  "(\<not> calc_ok e \<longrightarrow> evaluate E e = VStr (str ''Invalid characters in expression''))
   \<and> (calc_ok e \<and> py_eval E (filter (\<lambda>c. c \<noteq> 32) e) = Inl ZeroDivisionError \<longrightarrow>
        evaluate E e = VStr (str ''Division by zero is not allowed''))
   \<and> (calc_ok e \<and> py_eval E (filter (\<lambda>c. c \<noteq> 32) e) = Inl x \<and> x \<noteq> ZeroDivisionError \<longrightarrow>
        evaluate E e = VStr (str ''Invalid expression''))
   \<and> (calc_ok e \<and> py_eval E (filter (\<lambda>c. c \<noteq> 32) e) = Inr v \<and> \<not> is_number v \<longrightarrow>
        evaluate E e = v)"
  by (cases x; cases v) (auto simp: evaluate_def Let_def is_number_def calc_ok_iff)

theorem evaluate_result_kinds_witness:
  "evaluate ((quiet_env 0)\<lparr>py_eval := sample_eval\<rparr>) (str ''2 + x'') =
      VStr (str ''Invalid characters in expression'')
   \<and> evaluate ((quiet_env 0)\<lparr>py_eval := sample_eval\<rparr>) (str ''10/0'') =
      VStr (str ''Division by zero is not allowed'')
   \<and> evaluate ((quiet_env 0)\<lparr>py_eval := sample_eval\<rparr>) (str ''2+'') = VStr (str ''Invalid expression'')
   \<and> evaluate ((quiet_env 0)\<lparr>py_eval := sample_eval\<rparr>) (str ''()*2'') = VTuple []
   \<and> \<not> is_number (VTuple []) \<and> \<not> is_text (VTuple [])"
proof -
  let ?E = "(quiet_env 0)\<lparr>py_eval := sample_eval\<rparr>"
  have a: "\<not> calc_ok (str ''2 + x'')" by (simp add: calc_eval_defs)
  have b: "calc_ok (str ''10/0'') \<and> py_eval ?E (filter (\<lambda>c. c \<noteq> 32) (str ''10/0'')) = Inl ZeroDivisionError"
    by (simp add: calc_eval_defs)
  have c: "calc_ok (str ''2+'') \<and> py_eval ?E (filter (\<lambda>c. c \<noteq> 32) (str ''2+'')) = Inl OtherException
           \<and> OtherException \<noteq> ZeroDivisionError"
    by (simp add: calc_eval_defs)
  have d: "calc_ok (str ''()*2'') \<and> py_eval ?E (filter (\<lambda>c. c \<noteq> 32) (str ''()*2'')) = Inr (VTuple [])
           \<and> \<not> is_number (VTuple [])"
    by (simp add: calc_eval_defs is_number_def)
  have e: "\<not> is_text (VTuple [])" by (simp add: is_text_def)
  show ?thesis
    using evaluate_result_kinds [of "str ''2 + x''" ?E] a
      evaluate_result_kinds [of "str ''10/0''" ?E] b
      evaluate_result_kinds [of "str ''2+''" ?E OtherException] c
      evaluate_result_kinds [of "str ''()*2''" ?E _ "VTuple []"] d e
    by blast
qed

section \<open>The calculator detector\<close>





end
